theory Spec2Isabelle
  imports Complex_Main
begin

section \<open>Tensors, parameter dictionaries and Python values\<close>

text \<open>
  The module \<^verbatim>\<open>src/pipeline/inference/sampler.py\<close> works on dictionaries of torch
  tensors. A tensor is its shape together with its entries in row-major order; entries
  are exact reals, so rounding is outside the model. A parameter dictionary is an
  association list in insertion order, as a Python \<^verbatim>\<open>dict\<close> iterates.
\<close>

datatype tensor = Tensor (shape: "nat list") (data: "real list")

type_synonym ParameterSet = "(string \<times> tensor) list"

type_synonym matrix = "real list list"

text \<open>
  \<^verbatim>\<open>batched_proj\<close> hands back whatever \<^verbatim>\<open>vjp_fn\<close> returns, and its argument
  \<^verbatim>\<open>new_params\<close> is untyped, so the values that flow there are kept as a small
  universe of Python objects: a dictionary of tensors, or a tuple of objects.
\<close>

datatype pyobj = Dict ParameterSet | Tuple "pyobj list"

datatype error =
    KeyError string
  | TypeError
  | IndexError
  | StructureError
  | EmptyPrimalsError
  | ShapeError
  | EmptyStackError

section \<open>Vector and matrix arithmetic of the torch calls\<close>

definition dot :: "real list \<Rightarrow> real list \<Rightarrow> real" where
  "dot u v = sum_list (map2 (*) u v)"

definition vadd :: "real list \<Rightarrow> real list \<Rightarrow> real list" where
  "vadd u v = map2 (+) u v"

definition madd :: "matrix \<Rightarrow> matrix \<Rightarrow> matrix" where
  "madd a b = map2 vadd a b"

text \<open>\<^verbatim>\<open>torch.einsum('NP,MP->NM', a, b)\<close>: entry (n, m) contracts row n of a with row m of b.\<close>

definition einsum_NP_MP_NM :: "matrix \<Rightarrow> matrix \<Rightarrow> matrix" where
  "einsum_NP_MP_NM a b = map (\<lambda>rn. map (\<lambda>rm. dot rn rm) b) a"

text \<open>\<^verbatim>\<open>torch.stack\<close> raises on an empty list of tensors.\<close>

definition stack :: "matrix list \<Rightarrow> error + matrix list" where
  "stack ms = (case ms of [] \<Rightarrow> Inl EmptyStackError | _ # _ \<Rightarrow> Inr ms)"

text \<open>\<^verbatim>\<open>result.sum(0)\<close> on a stack of matrices adds them entry by entry.\<close>

fun sum0 :: "matrix list \<Rightarrow> matrix" where
  "sum0 [] = []"
| "sum0 (m # ms) = foldl madd m ms"

section \<open>The differentiation primitives of torch.func\<close>

text \<open>
  \<^verbatim>\<open>torch.func\<close> differentiates the caller's function. In \<^verbatim>\<open>batched_JJt\<close> a
  per-example loss \<^verbatim>\<open>func(params, x, y)\<close> enters the model with its gradient:
  \<open>dfunc params x y k\<close> is the flattened gradient of the loss of one example with respect
  to the parameter tensor named \<open>k\<close>, which is what
  \<^verbatim>\<open>tf.jacrev(func)(params, x, y)[k].flatten()\<close> holds. A minibatch is the list of its
  examples along the leading dimension.

  \<^verbatim>\<open>tf.vmap(tf.jacrev(func), (None, 0, 0))(params, xb, yb)\<close> is a dictionary with the
  keys of \<^verbatim>\<open>params\<close>; each value stacks the per-example gradients along a new
  dimension 0. Such a stacked tensor of shape \<open>B # s\<close> is kept as the shape \<open>s\<close> of one
  slice together with the list of its \<open>B\<close> flattened slices. \<^verbatim>\<open>vmap\<close> raises when
  the mapped inputs disagree on the batch size.
\<close>

type_synonym batched_tensor = "nat list \<times> real list list"

definition vmap_jacrev ::
  "(ParameterSet \<Rightarrow> 'x \<Rightarrow> 'y \<Rightarrow> string \<Rightarrow> real list) \<Rightarrow> ParameterSet \<Rightarrow> 'x list \<Rightarrow> 'y list
    \<Rightarrow> error + (string \<times> batched_tensor) list" where
  "vmap_jacrev dfunc params xb yb =
     (if length xb = length yb
      then Inr (map (\<lambda>(k, v). (k, (shape v, map (\<lambda>(x, y). dfunc params x y k) (zip xb yb))))
                  params)
      else Inl ShapeError)"

text \<open>
  \<^verbatim>\<open>j.flatten(1)\<close> keeps dimension 0 and flattens the dimensions from 1 on. For a
  parameter without dimensions the stacked Jacobian block has the single dimension
  \<open>B\<close>, and \<^verbatim>\<open>flatten(1)\<close> raises \<^verbatim>\<open>IndexError\<close>: there is no dimension 1.
\<close>

definition flatten1 :: "batched_tensor \<Rightarrow> error + matrix" where
  "flatten1 j = (case j of (s, slices) \<Rightarrow> (case s of [] \<Rightarrow> Inl IndexError | _ # _ \<Rightarrow> Inr slices))"

text \<open>The list comprehension \<^verbatim>\<open>[j.flatten(1) for j in jac]\<close> stops at the first exception.\<close>

fun flatten_all :: "batched_tensor list \<Rightarrow> error + matrix list" where
  "flatten_all [] = Inr []"
| "flatten_all (j # js) =
     (case flatten1 j of
        Inl e \<Rightarrow> Inl e
      | Inr m \<Rightarrow> (case flatten_all js of Inl e \<Rightarrow> Inl e | Inr ms \<Rightarrow> Inr (m # ms)))"

section \<open>batched_JJt\<close>

definition batched_JJt ::
  "(ParameterSet \<Rightarrow> 'x \<Rightarrow> 'y \<Rightarrow> string \<Rightarrow> real list) \<Rightarrow> ParameterSet \<Rightarrow> 'x list \<Rightarrow> 'y list
    \<Rightarrow> error + matrix" where
  "batched_JJt dfunc params xb yb =
     (case vmap_jacrev dfunc params xb yb of
        Inl e \<Rightarrow> Inl e
      | Inr jac \<Rightarrow>
          (case flatten_all (map snd jac) of
             Inl e \<Rightarrow> Inl e
           | Inr jac \<Rightarrow>
               (case stack (map (\<lambda>j. einsum_NP_MP_NM j j) jac) of
                  Inl e \<Rightarrow> Inl e
                | Inr result \<Rightarrow> Inr (sum0 result))))"




section \<open>precompute_inverse_\<close>

text \<open>
  The source's \<^verbatim>\<open>precompute_inverse_\<close> is \<open>precompute_inverse\<close> here, since a name
  cannot end in an underscore. \<^verbatim>\<open>torch.linalg.pinv\<close> is a library routine; it enters
  as the parameter \<open>pinv\<close>. The data loader is the list of minibatches that one pass over
  it yields, and the loop appends to \<^verbatim>\<open>cache\<close> in that order. An exception of
  \<^verbatim>\<open>batched_JJt\<close> ends the loop. The function takes no cache identifier and its body
  has no file access: what it computes is returned and nothing else happens.
\<close>

fun precompute_loop ::
  "(matrix \<Rightarrow> matrix) \<Rightarrow> (ParameterSet \<Rightarrow> 'x \<Rightarrow> 'y \<Rightarrow> string \<Rightarrow> real list) \<Rightarrow> ParameterSet
    \<Rightarrow> ('x list \<times> 'y list) list \<Rightarrow> matrix list \<Rightarrow> error + matrix list" where
  "precompute_loop pinv dfunc params [] cache = Inr cache"
| "precompute_loop pinv dfunc params ((xb, yb) # rest) cache =
     (case batched_JJt dfunc params xb yb of
        Inl e \<Rightarrow> Inl e
      | Inr m \<Rightarrow> precompute_loop pinv dfunc params rest (cache @ [pinv m]))"

definition precompute_inverse ::
  "(matrix \<Rightarrow> matrix) \<Rightarrow> (ParameterSet \<Rightarrow> 'x \<Rightarrow> 'y \<Rightarrow> string \<Rightarrow> real list) \<Rightarrow> ParameterSet
    \<Rightarrow> ('x list \<times> 'y list) list \<Rightarrow> error + matrix list" where
  "precompute_inverse pinv dfunc params train_loader =
     precompute_loop pinv dfunc params train_loader []"

section \<open>Forward and reverse mode\<close>

text \<open>
  A function of a parameter dictionary enters \<^verbatim>\<open>tf.jvp\<close> with its derivative:
  \<open>df p\<close> lists, for every entry of the output, the gradient of that entry as a map from
  parameter name to flattened gradient.

  \<^verbatim>\<open>tf.jvp(f, primals, tangents)\<close> takes its primals as a tuple and calls
  \<^verbatim>\<open>f(*primals)\<close>; both calls of the module pass the one-element tuples
  \<^verbatim>\<open>(primal,)\<close> and \<^verbatim>\<open>(tangent,)\<close>, so \<open>f\<close> receives the dictionary. In this
  order it raises when the tangent has not the Python structure of the primal (a
  dictionary with the same keys), when the primals hold no tensor, and when a tangent
  differs in shape from its primal; otherwise it returns the output and the directional
  derivative, a tensor of the output's shape.
\<close>

definition same_keys :: "ParameterSet \<Rightarrow> ParameterSet \<Rightarrow> bool" where
  "same_keys p t = (map fst t = map fst p)"

definition same_shapes :: "ParameterSet \<Rightarrow> ParameterSet \<Rightarrow> bool" where
  "same_shapes p t = (map (\<lambda>(k, v). shape v) t = map (\<lambda>(k, v). shape v) p)"

definition pdot :: "(string \<Rightarrow> real list) \<Rightarrow> ParameterSet \<Rightarrow> real" where
  "pdot g t = sum_list (map (\<lambda>(k, tk). dot (g k) (data tk)) t)"

definition jvp ::
  "(ParameterSet \<Rightarrow> error + tensor) \<Rightarrow> (ParameterSet \<Rightarrow> (string \<Rightarrow> real list) list)
    \<Rightarrow> ParameterSet \<Rightarrow> pyobj \<Rightarrow> error + tensor \<times> tensor" where
  "jvp f df primal tangent =
     (case tangent of
        Tuple _ \<Rightarrow> Inl StructureError
      | Dict t \<Rightarrow>
          if same_keys primal t
          then (case primal of
                  [] \<Rightarrow> Inl EmptyPrimalsError
                | _ # _ \<Rightarrow>
                    if same_shapes primal t
                    then (case f primal of
                            Inl e \<Rightarrow> Inl e
                          | Inr out \<Rightarrow> Inr (out, Tensor (shape out) (map (\<lambda>g. pdot g t) (df primal))))
                    else Inl ShapeError)
          else Inl StructureError)"

text \<open>
  \<^verbatim>\<open>tf.vjp(f, *primals)\<close> takes its primals as separate arguments. It calls
  \<^verbatim>\<open>f(*primals)\<close> and returns the output and a function \<^verbatim>\<open>vjp_fn\<close>. Given a
  cotangent of the output's shape, \<^verbatim>\<open>vjp_fn\<close> returns a tuple with one entry per
  primal; each entry has the Python structure of its primal and holds, in place of every
  tensor, the cotangent-weighted sum of the output entries' gradients with respect to
  that tensor. Here \<open>vjp\<close> is the call with one primal, any Python object.
\<close>

definition smul :: "real \<Rightarrow> real list \<Rightarrow> real list" where
  "smul c v = map ((*) c) v"

definition weighted_sum :: "real list \<Rightarrow> real list list \<Rightarrow> nat \<Rightarrow> real list" where
  "weighted_sum c rows n = foldr (\<lambda>(ci, row) acc. vadd (smul ci row) acc) (zip c rows) (replicate n 0)"

fun grad_like :: "(string \<Rightarrow> nat \<Rightarrow> real list) \<Rightarrow> pyobj \<Rightarrow> pyobj" where
  "grad_like g (Dict d) = Dict (map (\<lambda>(k, v). (k, Tensor (shape v) (g k (prod_list (shape v))))) d)"
| "grad_like g (Tuple os) = Tuple (map (grad_like g) os)"

definition vjp_fn ::
  "tensor \<Rightarrow> (string \<Rightarrow> real list) list \<Rightarrow> pyobj \<Rightarrow> tensor \<Rightarrow> error + pyobj" where
  "vjp_fn out grads primal cotangent =
     (if shape cotangent = shape out \<and> length (data cotangent) = length (data out)
      then Inr (Tuple [grad_like (\<lambda>k n. weighted_sum (data cotangent) (map (\<lambda>g. g k) grads) n) primal])
      else Inl ShapeError)"

definition vjp ::
  "(pyobj \<Rightarrow> error + tensor) \<Rightarrow> (pyobj \<Rightarrow> (string \<Rightarrow> real list) list)
    \<Rightarrow> pyobj \<Rightarrow> error + tensor \<times> (tensor \<Rightarrow> error + pyobj)" where
  "vjp f df primal =
     (case f primal of
        Inl e \<Rightarrow> Inl e
      | Inr out \<Rightarrow> Inr (out, vjp_fn out (df primal) primal))"

text \<open>\<^verbatim>\<open>torch.matmul\<close> of a matrix with a one-dimensional tensor.\<close>

definition matmul :: "matrix \<Rightarrow> tensor \<Rightarrow> error + tensor" where
  "matmul m v =
     (if length (shape v) = 1 \<and> list_all (\<lambda>row. length row = length (data v)) m
      then Inr (Tensor [length m] (map (\<lambda>row. dot row (data v)) m))
      else Inl ShapeError)"

section \<open>batched_proj\<close>

text \<open>
  In \<^verbatim>\<open>batched_proj\<close> the loss is called on two kinds of Python object, so it is a
  function of any object that may raise: \<open>func p x y\<close> is the loss of one example or the
  exception, and \<open>dfunc p x y k\<close> the flattened gradient with respect to the tensor named
  \<open>k\<close> inside \<open>p\<close>.

  The inner function \<^verbatim>\<open>fp\<close> maps \<^verbatim>\<open>func\<close> over the minibatch with \<open>p\<close> shared: its
  output is the vector of per-example losses, and the gradient of entry \<open>i\<close> is the
  gradient of the loss of example \<open>i\<close>.
\<close>

fun losses :: "('x \<Rightarrow> 'y \<Rightarrow> error + real) \<Rightarrow> ('x \<times> 'y) list \<Rightarrow> error + real list" where
  "losses l [] = Inr []"
| "losses l ((x, y) # rest) =
     (case l x y of
        Inl e \<Rightarrow> Inl e
      | Inr v \<Rightarrow> (case losses l rest of Inl e \<Rightarrow> Inl e | Inr vs \<Rightarrow> Inr (v # vs)))"

definition fp_batched ::
  "(pyobj \<Rightarrow> 'x \<Rightarrow> 'y \<Rightarrow> error + real) \<Rightarrow> 'x list \<Rightarrow> 'y list \<Rightarrow> pyobj \<Rightarrow> error + tensor" where
  "fp_batched func xb yb p =
     (if length xb = length yb
      then (case losses (func p) (zip xb yb) of
              Inl e \<Rightarrow> Inl e
            | Inr vs \<Rightarrow> Inr (Tensor [length xb] vs))
      else Inl ShapeError)"

definition dfp_batched ::
  "(pyobj \<Rightarrow> 'x \<Rightarrow> 'y \<Rightarrow> string \<Rightarrow> real list) \<Rightarrow> 'x list \<Rightarrow> 'y list \<Rightarrow> pyobj
    \<Rightarrow> (string \<Rightarrow> real list) list" where
  "dfp_batched dfunc xb yb p = map (\<lambda>(x, y). dfunc p x y) (zip xb yb)"

text \<open>
  Line 226 calls \<^verbatim>\<open>tf.jvp(fp, (params,), (new_params,))\<close>, so there \<^verbatim>\<open>fp\<close> receives
  the dictionary. Line 230 calls \<^verbatim>\<open>tf.vjp(fp, (params,))\<close>: the one primal is the
  tuple \<^verbatim>\<open>(params,)\<close>, so there \<^verbatim>\<open>fp\<close>, and with it \<^verbatim>\<open>func\<close>, receives a tuple
  that holds the dictionary, and \<^verbatim>\<open>vjp_fn\<close> answers with a tuple shaped like it
  inside the tuple over the primals.
\<close>

definition batched_proj ::
  "(pyobj \<Rightarrow> 'x \<Rightarrow> 'y \<Rightarrow> error + real) \<Rightarrow> (pyobj \<Rightarrow> 'x \<Rightarrow> 'y \<Rightarrow> string \<Rightarrow> real list)
    \<Rightarrow> ParameterSet \<Rightarrow> pyobj \<Rightarrow> 'x list \<Rightarrow> 'y list \<Rightarrow> matrix \<Rightarrow> error + pyobj" where
  "batched_proj func dfunc params new_params xb yb invJJt =
     (case jvp (\<lambda>p. fp_batched func xb yb (Dict p)) (\<lambda>p. dfp_batched dfunc xb yb (Dict p))
             params new_params of
        Inl e \<Rightarrow> Inl e
      | Inr (_, jvp_val) \<Rightarrow>
          (case matmul invJJt jvp_val of
             Inl e \<Rightarrow> Inl e
           | Inr invJJt_Jv \<Rightarrow>
               (case vjp (fp_batched func xb yb) (dfp_batched dfunc xb yb) (Tuple [Dict params]) of
                  Inl e \<Rightarrow> Inl e
                | Inr (_, vjp_fun) \<Rightarrow> vjp_fun invJJt_Jv)))"

section \<open>Tensor arithmetic with broadcasting\<close>

text \<open>
  \<^verbatim>\<open>a - b\<close> and \<^verbatim>\<open>a + b\<close> on tensors work entry by entry on equal shapes. On
  different shapes torch aligns the shapes at their last dimension, pads the shorter one
  with ones in front, and stretches every dimension of size one to the size of the other
  operand; it raises when two sizes differ and neither is one.
\<close>

definition pad_shape :: "nat \<Rightarrow> nat list \<Rightarrow> nat list" where
  "pad_shape n s = replicate (n - length s) 1 @ s"

fun broadcast_dims :: "nat list \<Rightarrow> nat list \<Rightarrow> nat list option" where
  "broadcast_dims [] [] = Some []"
| "broadcast_dims (x # xs) (y # ys) =
     (case broadcast_dims xs ys of
        None \<Rightarrow> None
      | Some r \<Rightarrow>
          if x = y then Some (x # r)
          else if x = 1 then Some (y # r)
          else if y = 1 then Some (x # r)
          else None)"
| "broadcast_dims _ _ = None"

definition broadcast_shapes :: "nat list \<Rightarrow> nat list \<Rightarrow> nat list option" where
  "broadcast_shapes a b =
     (let n = max (length a) (length b) in broadcast_dims (pad_shape n a) (pad_shape n b))"

text \<open>
  \<open>expand s t d\<close> stretches the entries \<open>d\<close> of a tensor of shape \<open>s\<close> to the shape \<open>t\<close> of
  the same rank: along a dimension that keeps its size the slices are expanded one by
  one, along a dimension of size one the expanded slice is repeated.
\<close>

fun expand :: "nat list \<Rightarrow> nat list \<Rightarrow> real list \<Rightarrow> real list" where
  "expand (s # ss) (t # ts) d =
     (let n = prod_list ss;
          parts = map (\<lambda>i. expand ss ts (take n (drop (i * n) d))) [0..<s]
      in if s = t then concat parts else concat (replicate t (concat parts)))"
| "expand _ _ d = d"

definition tensor_op :: "(real \<Rightarrow> real \<Rightarrow> real) \<Rightarrow> tensor \<Rightarrow> tensor \<Rightarrow> error + tensor" where
  "tensor_op f a b =
     (if shape a = shape b
      then Inr (Tensor (shape a) (map2 f (data a) (data b)))
      else (case broadcast_shapes (shape a) (shape b) of
              None \<Rightarrow> Inl ShapeError
            | Some s \<Rightarrow>
                Inr (Tensor s
                      (map2 f (expand (pad_shape (length s) (shape a)) s (data a))
                              (expand (pad_shape (length s) (shape b)) s (data b))))))"

definition tsub :: "tensor \<Rightarrow> tensor \<Rightarrow> error + tensor" where
  "tsub a b = tensor_op (-) a b"

definition tadd :: "tensor \<Rightarrow> tensor \<Rightarrow> error + tensor" where
  "tadd a b = tensor_op (+) a b"

text \<open>
  The comprehension \<^verbatim>\<open>{k: param1[k]-v for k, v in param0.items()}\<close>; a key that
  \<^verbatim>\<open>param1\<close> lacks raises \<^verbatim>\<open>KeyError\<close>.
\<close>

fun param_diff_of :: "ParameterSet \<Rightarrow> ParameterSet \<Rightarrow> error + ParameterSet" where
  "param_diff_of param1 [] = Inr []"
| "param_diff_of param1 ((k, v) # items) =
     (case map_of param1 k of
        None \<Rightarrow> Inl (KeyError k)
      | Some t \<Rightarrow>
          (case tsub t v of
             Inl e \<Rightarrow> Inl e
           | Inr d \<Rightarrow>
               (case param_diff_of param1 items of
                  Inl e \<Rightarrow> Inl e
                | Inr ds \<Rightarrow> Inr ((k, d) # ds))))"

text \<open>
  The projection as the specification describes it, for comparison with
  \<^verbatim>\<open>batched_proj\<close>: the forward pass \<open>J v\<close> at the reference parameters, the product
  with the cached inverse, the reverse pass with respect to the parameter dictionary,
  and a final entrywise subtraction of the reverse pass's dictionary from \<open>v\<close>.
\<close>

definition Proj_spec ::
  "(pyobj \<Rightarrow> 'x \<Rightarrow> 'y \<Rightarrow> error + real) \<Rightarrow> (pyobj \<Rightarrow> 'x \<Rightarrow> 'y \<Rightarrow> string \<Rightarrow> real list)
    \<Rightarrow> ParameterSet \<Rightarrow> ParameterSet \<Rightarrow> 'x list \<Rightarrow> 'y list \<Rightarrow> matrix \<Rightarrow> error + ParameterSet" where
  "Proj_spec func dfunc params v xb yb Minv =
     (case jvp (\<lambda>p. fp_batched func xb yb (Dict p)) (\<lambda>p. dfp_batched dfunc xb yb (Dict p))
             params (Dict v) of
        Inl e \<Rightarrow> Inl e
      | Inr (_, Jv) \<Rightarrow>
          (case matmul Minv Jv of
             Inl e \<Rightarrow> Inl e
           | Inr Minv_Jv \<Rightarrow>
               (case vjp (fp_batched func xb yb) (dfp_batched dfunc xb yb) (Dict params) of
                  Inl e \<Rightarrow> Inl e
                | Inr (_, vjp_fun) \<Rightarrow>
                    (case vjp_fun Minv_Jv of
                       Inl e \<Rightarrow> Inl e
                     | Inr (Tuple [Dict Jt_Minv_Jv]) \<Rightarrow> param_diff_of v Jt_Minv_Jv
                     | Inr _ \<Rightarrow> Inl StructureError))))"

section \<open>linearized_predict\<close>

text \<open>
  Here \<^verbatim>\<open>func(params, x)\<close> returns a tensor; \<open>dfunc params x\<close> lists the gradient of
  every output entry.
\<close>

definition linearized_predict ::
  "(ParameterSet \<Rightarrow> 'x \<Rightarrow> tensor) \<Rightarrow> (ParameterSet \<Rightarrow> 'x \<Rightarrow> (string \<Rightarrow> real list) list)
    \<Rightarrow> ParameterSet \<Rightarrow> ParameterSet \<Rightarrow> 'x \<Rightarrow> error + tensor" where
  "linearized_predict func dfunc param0 param1 x =
     (case param_diff_of param1 param0 of
        Inl e \<Rightarrow> Inl e
      | Inr param_diff \<Rightarrow>
          (case jvp (\<lambda>params. Inr (func params x)) (\<lambda>params. dfunc params x) param0 (Dict param_diff) of
             Inl e \<Rightarrow> Inl e
           | Inr (outputs, jvp_val) \<Rightarrow> tadd outputs jvp_val))"

section \<open>randn_params\<close>

text \<open>
  \<^verbatim>\<open>torch.randn_like(v)\<close> draws one standard normal value per entry of \<open>v\<close> from the
  global generator. The generator is passed explicitly as the sequence of values it is
  going to produce; a call consumes a prefix and returns the rest. The precision is a
  scalar tensor, a real number here.
\<close>

type_synonym rng = "nat \<Rightarrow> real"

definition randn_like :: "tensor \<Rightarrow> rng \<Rightarrow> tensor \<times> rng" where
  "randn_like v g =
     (Tensor (shape v) (map g [0..<prod_list (shape v)]), \<lambda>i. g (i + prod_list (shape v)))"

fun randn_items :: "real \<Rightarrow> ParameterSet \<Rightarrow> rng \<Rightarrow> ParameterSet \<times> rng" where
  "randn_items precision [] g = ([], g)"
| "randn_items precision ((k, v) # items) g =
     (case randn_like v g of
        (z, g') \<Rightarrow>
          (case randn_items precision items g' of
             (d, g'') \<Rightarrow> ((k, Tensor (shape z) (smul (1 / sqrt precision) (data z))) # d, g'')))"

definition randn_params :: "ParameterSet \<Rightarrow> real \<Rightarrow> int \<Rightarrow> rng \<Rightarrow> ParameterSet \<times> rng" where
  "randn_params param_template precision n_samples g = randn_items precision param_template g"

section \<open>alternating_projection_sampler\<close>

text \<open>
  The body of \<^verbatim>\<open>alternating_projection_sampler\<close> is a docstring reading
  \<^verbatim>\<open>pass\<close> and three comments (load or precompute the cache, draw prior samples,
  perform alternating projections); it has no statement. The \<^verbatim>\<open>def\<close> line
  also lacks its closing colon, so Python rejects the module as written. Read as a
  function, a call computes nothing and returns \<^verbatim>\<open>None\<close>.
\<close>

definition alternating_projection_sampler ::
  "int \<Rightarrow> (ParameterSet \<Rightarrow> 'x \<Rightarrow> 'y \<Rightarrow> real) \<Rightarrow> (ParameterSet \<Rightarrow> 'x \<Rightarrow> 'y \<Rightarrow> string \<Rightarrow> real list)
    \<Rightarrow> ParameterSet \<Rightarrow> real \<Rightarrow> ('x list \<times> 'y list) list \<Rightarrow> ParameterSet list option" where
  "alternating_projection_sampler n_samples func dfunc params prior_precision dataloader = None"

section \<open>A worked example: a linear model with a weight vector and a bias\<close>

text \<open>
  The per-example loss \<open>w \<bullet> x + b - y\<close> and its gradient: \<open>x\<close> with respect to \<open>w\<close>, \<open>1\<close>
  with respect to \<open>b\<close>.
\<close>

definition lin_loss :: "ParameterSet \<Rightarrow> real list \<Rightarrow> real \<Rightarrow> real" where
  "lin_loss params x y =
     (case (map_of params ''w'', map_of params ''b'') of
        (Some w, Some b) \<Rightarrow> dot (data w) x + sum_list (data b) - y
      | _ \<Rightarrow> 0)"

definition lin_grad :: "ParameterSet \<Rightarrow> real list \<Rightarrow> real \<Rightarrow> string \<Rightarrow> real list" where
  "lin_grad params x y k = (if k = ''w'' then x else if k = ''b'' then [1] else [])"

definition lin_params :: ParameterSet where
  "lin_params = [(''w'', Tensor [2] [1, 1]), (''b'', Tensor [] [0])]"

text \<open>The Moore-Penrose pseudo-inverse of a 1-by-1 matrix; other matrices are not touched.\<close>

definition pinv_1x1 :: "matrix \<Rightarrow> matrix" where
  "pinv_1x1 m = (case m of [[a]] \<Rightarrow> [[if a = 0 then 0 else 1 / a]] | _ \<Rightarrow> m)"

text \<open>The model's output as a one-entry tensor, for \<^verbatim>\<open>linearized_predict\<close>.\<close>

definition lin_model :: "ParameterSet \<Rightarrow> real list \<Rightarrow> tensor" where
  "lin_model params x = Tensor [1] [lin_loss params x 0]"

definition lin_model_grad :: "ParameterSet \<Rightarrow> real list \<Rightarrow> (string \<Rightarrow> real list) list" where
  "lin_model_grad params x = [lin_grad params x 0]"

text \<open>
  Two minibatches and a loader that yields two minibatches.
\<close>

definition ex_xb :: "real list list" where
  "ex_xb = [[1, 0]]"

definition ex_yb :: "real list" where
  "ex_yb = [0]"



definition ex_loader :: "(real list list \<times> real list) list" where
  "ex_loader = [([[1, 0]], [0]), ([[0, 2]], [1])]"

text \<open>
  The same model with the bias as a tensor of one dimension, and a candidate to project.
\<close>

definition ex_params :: ParameterSet where
  "ex_params = [(''w'', Tensor [2] [1, 1]), (''b'', Tensor [1] [0])]"

definition ex_cand :: ParameterSet where
  "ex_cand = [(''w'', Tensor [2] [3, 5]), (''b'', Tensor [1] [1])]"

text \<open>
  Two ways to write the linear loss in Python. \<open>dict_loss\<close> indexes its first argument
  with \<^verbatim>\<open>params['w']\<close> and \<^verbatim>\<open>params['b']\<close>: a tuple there raises
  \<^verbatim>\<open>TypeError\<close>, a missing key \<^verbatim>\<open>KeyError\<close>. \<open>call_loss\<close> first takes the
  dictionary out of a tuple that holds exactly one object and then does the same, the
  way a loss built on \<^verbatim>\<open>torch.func.functional_call\<close> accepts a dictionary or a
  tuple of dictionaries. The gradient is the same for both.
\<close>

definition dict_loss :: "pyobj \<Rightarrow> real list \<Rightarrow> real \<Rightarrow> error + real" where
  "dict_loss p x y =
     (case p of
        Tuple _ \<Rightarrow> Inl TypeError
      | Dict d \<Rightarrow>
          (case map_of d ''w'' of
             None \<Rightarrow> Inl (KeyError ''w'')
           | Some w \<Rightarrow>
               (case map_of d ''b'' of
                  None \<Rightarrow> Inl (KeyError ''b'')
                | Some b \<Rightarrow> Inr (dot (data w) x + sum_list (data b) - y))))"

definition call_loss :: "pyobj \<Rightarrow> real list \<Rightarrow> real \<Rightarrow> error + real" where
  "call_loss p x y = (case p of Tuple [q] \<Rightarrow> dict_loss q x y | _ \<Rightarrow> dict_loss p x y)"

definition loss_grad :: "pyobj \<Rightarrow> real list \<Rightarrow> real \<Rightarrow> string \<Rightarrow> real list" where
  "loss_grad p x y k = (if k = ''w'' then x else if k = ''b'' then [1] else [])"

text \<open>The dictionary of zero tensors shaped like \<open>p\<close>, the value of \<^verbatim>\<open>param_diff\<close> when both points agree.\<close>

definition zeros_like :: "ParameterSet \<Rightarrow> ParameterSet" where
  "zeros_like p = map (\<lambda>(k, v). (k, Tensor (shape v) (replicate (length (data v)) 0))) p"

section \<open>Evaluating the worked example\<close>

lemmas ex_defs = batched_proj_def jvp_def vjp_def vjp_fn_def matmul_def fp_batched_def dfp_batched_def
      ex_params_def ex_cand_def loss_grad_def dict_loss_def call_loss_def same_keys_def
      same_shapes_def pdot_def dot_def weighted_sum_def vadd_def smul_def numeral_2_eq_2
      ex_xb_def ex_yb_def

lemmas jjt_defs = precompute_inverse_def batched_JJt_def vmap_jacrev_def stack_def flatten1_def
      einsum_NP_MP_NM_def madd_def pinv_1x1_def lin_grad_def

section \<open>batched_JJt contracts the full Jacobian\<close>












section \<open>precompute_inverse_ keeps one pseudo-inverse per minibatch\<close>





section \<open>linearized_predict at the reference point\<close>

lemma map2_minus_self: "map2 (-) (d :: real list) d = replicate (length d) 0"
  by (induction d) auto

lemma dot_zeros: "dot u (replicate n 0) = 0"
proof (induction u arbitrary: n)
  case Nil
  show ?case by (simp add: dot_def)
next
  case (Cons a u)
  show ?case
  proof (cases n)
    case 0
    then show ?thesis by (simp add: dot_def)
  next
    case (Suc n')
    with Cons.IH [of n'] show ?thesis by (simp add: dot_def)
  qed
qed

lemma map2_plus_zeros: "map2 (+) (d :: real list) (replicate (length d) 0) = d"
  by (induction d) auto

lemma param_diff_of_self:
  assumes "list_all (\<lambda>(k, v). map_of p k = Some v) items"
  shows "param_diff_of p items = Inr (zeros_like items)"
  using assms
proof (induction items)
  case Nil
  show ?case by (simp add: zeros_like_def)
next
  case (Cons kv items)
  obtain k v where kv: "kv = (k, v)" by (cases kv)
  from Cons.prems kv have look: "map_of p k = Some v" and rest: "list_all (\<lambda>(k, v). map_of p k = Some v) items"
    by simp_all
  have "tsub v v = Inr (Tensor (shape v) (replicate (length (data v)) 0))"
    by (simp add: tsub_def tensor_op_def map2_minus_self)
  with look Cons.IH [OF rest] show ?case
    by (simp add: kv zeros_like_def)
qed

lemma pdot_zeros_like: "pdot g (zeros_like p) = 0"
  by (induction p) (auto simp: pdot_def zeros_like_def dot_zeros)

lemma same_keys_zeros_like: "same_keys p (zeros_like p)"
  by (simp add: same_keys_def zeros_like_def comp_def case_prod_unfold)

lemma same_shapes_zeros_like: "same_shapes p (zeros_like p)"
  by (simp add: same_shapes_def zeros_like_def comp_def case_prod_unfold)

text \<open>
  Claim C10. When the candidate parameters are the reference parameters,
  \<^verbatim>\<open>linearized_predict\<close> returns the plain evaluation \<^verbatim>\<open>func(p, x)\<close>: the
  parameter difference is zero, so the tangent term vanishes. The dictionary holds at
  least one tensor and has distinct keys, and the derivative has one gradient per output
  entry.
\<close>

theorem linearized_predict_at_reference:
  assumes ne: "p \<noteq> []"
    and keys: "distinct (map fst p)"
    and rows: "length (dfunc p x) = length (data (func p x))"
  shows "linearized_predict func dfunc p p x = Inr (func p x)"
proof -
  have "list_all (\<lambda>(k, v). map_of p k = Some v) p"
    using keys by (auto simp: list_all_iff)
  then have diff: "param_diff_of p p = Inr (zeros_like p)"
    by (rule param_diff_of_self)
  have tangent: "map (\<lambda>g. pdot g (zeros_like p)) (dfunc p x) = replicate (length (data (func p x))) 0"
    by (simp add: pdot_zeros_like map_replicate_const rows)
  from ne obtain q qs where p: "p = q # qs" by (cases p) auto
  have "jvp (\<lambda>params. Inr (func params x)) (\<lambda>params. dfunc params x) p (Dict (zeros_like p))
      = (case p of [] \<Rightarrow> Inl EmptyPrimalsError
         | _ # _ \<Rightarrow> Inr (func p x, Tensor (shape (func p x)) (map (\<lambda>g. pdot g (zeros_like p)) (dfunc p x))))"
    unfolding jvp_def
    by (simp add: same_keys_zeros_like same_shapes_zeros_like split: list.splits)
  then have fwd: "jvp (\<lambda>params. Inr (func params x)) (\<lambda>params. dfunc params x) p (Dict (zeros_like p))
      = Inr (func p x, Tensor (shape (func p x)) (replicate (length (data (func p x))) 0))"
    using p tangent by simp
  have "tadd (func p x) (Tensor (shape (func p x)) (replicate (length (data (func p x))) 0)) = Inr (func p x)"
    by (simp add: tadd_def tensor_op_def map2_plus_zeros)
  with diff fwd show ?thesis
    by (simp add: linearized_predict_def)
qed

text \<open>
  Claim C10, at the linear model and the input \<open>[1, 2]\<close>.
\<close>

theorem linearized_predict_witness:
  "lin_params \<noteq> [] \<and> distinct (map fst lin_params)
   \<and> length (lin_model_grad lin_params [1, 2]) = length (data (lin_model lin_params [1, 2]))
   \<and> linearized_predict lin_model lin_model_grad lin_params lin_params [1, 2] = Inr (lin_model lin_params [1, 2])
   \<and> lin_model lin_params [1, 2] = Tensor [1] [3]"
proof -
  have h0: "lin_params \<noteq> []" by (simp add: lin_params_def)
  have h1: "distinct (map fst lin_params)" by (simp add: lin_params_def)
  have h2: "length (lin_model_grad lin_params [1, 2]) = length (data (lin_model lin_params [1, 2]))"
    by (simp add: lin_model_grad_def lin_model_def)
  note c = linearized_predict_at_reference [of lin_params lin_model_grad "[1, 2]" lin_model, OF h0 h1 h2]
  have e: "lin_model lin_params [1, 2] = Tensor [1] [3]"
    by (simp add: lin_model_def lin_loss_def lin_params_def dot_def)
  from h0 h1 h2 c e show ?thesis by (intro conjI)
qed

section \<open>What batched_proj returns\<close>

text \<open>
  Claim C7. Whenever \<^verbatim>\<open>batched_proj\<close> returns, the candidate was a dictionary and the
  value returned is what \<^verbatim>\<open>vjp_fn\<close> answers for the primal \<^verbatim>\<open>(params,)\<close>: a tuple
  that holds a tuple that holds a dictionary with the parameter names and tensor shapes
  of the candidate. The value is never the dictionary itself.
\<close>

theorem batched_proj_returns_nested_tuple:
  assumes "batched_proj func dfunc params new_params xb yb invJJt = Inr r"
  shows "\<exists>v w. new_params = Dict v \<and> r = Tuple [Tuple [Dict w]]
           \<and> map fst w = map fst v
           \<and> map (\<lambda>(k, t). shape t) w = map (\<lambda>(k, t). shape t) v"
proof (cases new_params)
  case (Tuple os)
  with assms show ?thesis by (simp add: batched_proj_def jvp_def)
next
  case (Dict v)
  with assms have keys: "same_keys params v" and shapes: "same_shapes params v"
    by (auto simp: batched_proj_def jvp_def split: if_splits list.splits)
  from assms Dict obtain out ct where
    r: "vjp_fn out (dfp_batched dfunc xb yb (Tuple [Dict params])) (Tuple [Dict params]) ct = Inr r"
    by (auto simp: batched_proj_def vjp_def split: sum.splits prod.splits)
  define w where "w = map (\<lambda>(k, v). (k, Tensor (shape v)
       (weighted_sum (data ct) (map (\<lambda>g. g k) (dfp_batched dfunc xb yb (Tuple [Dict params])))
          (prod_list (shape v))))) params"
  from r have "r = Tuple [Tuple [Dict w]]"
    by (auto simp: vjp_fn_def w_def split: if_splits)
  moreover have "map fst w = map fst v"
    using keys by (simp add: w_def same_keys_def comp_def case_prod_unfold)
  moreover have "map (\<lambda>(k, t). shape t) w = map (\<lambda>(k, t). shape t) v"
    using shapes by (simp add: w_def same_shapes_def comp_def case_prod_unfold)
  ultimately show ?thesis using Dict by blast
qed

text \<open>
  Claim C7, at the linear model with the loss that accepts a tuple of dictionaries: the
  candidate \<open>ex_cand\<close> comes back two tuples deep. With the loss that indexes its
  argument the call raises.
\<close>

theorem batched_proj_returns_nested_tuple_witness:
  "batched_proj call_loss loss_grad ex_params (Dict ex_cand) ex_xb ex_yb [[1 / 2]]
     = Inr (Tuple [Tuple [Dict [(''w'', Tensor [2] [2, 0]), (''b'', Tensor [1] [2])]]])
   \<and> (\<exists>v w. Dict ex_cand = Dict v
          \<and> Tuple [Tuple [Dict [(''w'', Tensor [2] [2, 0]), (''b'', Tensor [1] [2])]]] = Tuple [Tuple [Dict w]]
          \<and> map fst w = map fst v
          \<and> map (\<lambda>(k, t). shape t) w = map (\<lambda>(k, t). shape t) v)
   \<and> batched_proj dict_loss loss_grad ex_params (Dict ex_cand) ex_xb ex_yb [[1 / 2]] = Inl TypeError"
proof -
  have h: "batched_proj call_loss loss_grad ex_params (Dict ex_cand) ex_xb ex_yb [[1 / 2]]
     = Inr (Tuple [Tuple [Dict [(''w'', Tensor [2] [2, 0]), (''b'', Tensor [1] [2])]]])"
    by (simp add: ex_defs)
  note c = batched_proj_returns_nested_tuple [OF h]
  have e: "batched_proj dict_loss loss_grad ex_params (Dict ex_cand) ex_xb ex_yb [[1 / 2]] = Inl TypeError"
    by (simp add: ex_defs)
  from h c e show ?thesis by (intro conjI)
qed

text \<open>
  Claim C1. On the one-example minibatch of the linear model, with the cached
  pseudo-inverse \<open>[[1/2]]\<close> of its curvature matrix \<open>[[2]]\<close>, the projection
  \<open>v - J\<^sup>t M\<^sup>-\<^sup>1 J v\<close> of the docstring is the dictionary with \<open>w = [1, 5]\<close> and
  \<open>b = [-1]\<close>. \<^verbatim>\<open>batched_proj\<close> does not return it: with the loss that indexes its
  argument the call raises in \<^verbatim>\<open>tf.vjp\<close>, and with the loss that accepts a tuple of
  dictionaries it returns \<open>J\<^sup>t M\<^sup>-\<^sup>1 J v\<close>, not subtracted from \<open>v\<close>, two
  tuples deep.
\<close>

theorem batched_proj_is_not_the_projection:
  "precompute_inverse pinv_1x1 lin_grad ex_params [(ex_xb, ex_yb)] = Inr [[[1 / 2]]]
   \<and> Proj_spec dict_loss loss_grad ex_params ex_cand ex_xb ex_yb [[1 / 2]]
     = Inr [(''w'', Tensor [2] [1, 5]), (''b'', Tensor [1] [- 1])]
   \<and> Proj_spec call_loss loss_grad ex_params ex_cand ex_xb ex_yb [[1 / 2]]
     = Inr [(''w'', Tensor [2] [1, 5]), (''b'', Tensor [1] [- 1])]
   \<and> batched_proj dict_loss loss_grad ex_params (Dict ex_cand) ex_xb ex_yb [[1 / 2]]
     = Inl TypeError
   \<and> batched_proj call_loss loss_grad ex_params (Dict ex_cand) ex_xb ex_yb [[1 / 2]]
     = Inr (Tuple [Tuple [Dict [(''w'', Tensor [2] [2, 0]), (''b'', Tensor [1] [2])]]])"
  by (simp add: jjt_defs Proj_spec_def tsub_def tensor_op_def ex_defs)

text \<open>
  Claim C5. On the same input there is no projected output in the null space: with the
  loss that indexes its argument \<^verbatim>\<open>batched_proj\<close> raises, and with the loss that
  accepts a tuple of dictionaries the forward-mode product \<open>J w\<close> of the dictionary \<open>w\<close>
  inside the returned tuples is \<open>[4]\<close>, the product \<open>J v\<close> of the candidate itself, not the
  zero vector.
\<close>

theorem batched_proj_output_not_in_null_space:
  "(case batched_proj dict_loss loss_grad ex_params (Dict ex_cand) ex_xb ex_yb [[1 / 2]] of
      Inl e \<Rightarrow> Inl e
    | Inr w \<Rightarrow> jvp (\<lambda>p. fp_batched dict_loss ex_xb ex_yb (Dict p))
                 (\<lambda>p. dfp_batched loss_grad ex_xb ex_yb (Dict p)) ex_params w)
   = Inl TypeError
   \<and> (case batched_proj call_loss loss_grad ex_params (Dict ex_cand) ex_xb ex_yb [[1 / 2]] of
      Inr (Tuple [Tuple [w]]) \<Rightarrow>
        jvp (\<lambda>p. fp_batched call_loss ex_xb ex_yb (Dict p))
          (\<lambda>p. dfp_batched loss_grad ex_xb ex_yb (Dict p)) ex_params w
    | _ \<Rightarrow> Inl StructureError)
   = Inr (Tensor [1] [1], Tensor [1] [4])
   \<and> jvp (\<lambda>p. fp_batched call_loss ex_xb ex_yb (Dict p))
       (\<lambda>p. dfp_batched loss_grad ex_xb ex_yb (Dict p)) ex_params (Dict ex_cand)
     = Inr (Tensor [1] [1], Tensor [1] [4])"
  by (simp add: ex_defs)

text \<open>
  Claim C6. On the same input \<^verbatim>\<open>batched_proj\<close> cannot be applied twice: with the loss
  that indexes its argument the first call raises, and with the loss that accepts a
  tuple of dictionaries the first call returns nested tuples, which \<^verbatim>\<open>tf.jvp\<close> in the
  second call rejects as a tangent whose structure differs from the primal's.
\<close>

theorem batched_proj_twice_raises:
  "(case batched_proj dict_loss loss_grad ex_params (Dict ex_cand) ex_xb ex_yb [[1 / 2]] of
      Inl e \<Rightarrow> Inl e
    | Inr w \<Rightarrow> batched_proj dict_loss loss_grad ex_params w ex_xb ex_yb [[1 / 2]])
   = Inl TypeError
   \<and> (case batched_proj call_loss loss_grad ex_params (Dict ex_cand) ex_xb ex_yb [[1 / 2]] of
      Inl e \<Rightarrow> Inl e
    | Inr w \<Rightarrow> batched_proj call_loss loss_grad ex_params w ex_xb ex_yb [[1 / 2]])
   = Inl StructureError"
  by (simp add: ex_defs)

section \<open>randn_params and the sampler\<close>

text \<open>
  Claim C4. With \<^verbatim>\<open>n_samples = 2\<close> and precision \<open>4\<close>, \<^verbatim>\<open>randn_params\<close>
  returns one draw, scaled by \<open>1/2\<close>, with the shapes of the template: the argument
  \<^verbatim>\<open>n_samples\<close> is not used and no sample axis is added.
\<close>

theorem randn_params_single_draw:
  "fst (randn_params lin_params 4 2 (\<lambda>i. real i))
     = [(''w'', Tensor [2] [0, 1 / 2]), (''b'', Tensor [] [1])]"
  by (simp add: randn_params_def randn_like_def lin_params_def smul_def numeral_2_eq_2)

text \<open>
  Claim C2. \<^verbatim>\<open>alternating_projection_sampler\<close> asked for three samples returns
  \<^verbatim>\<open>None\<close>, not a sequence of three samples.
\<close>

theorem alternating_projection_sampler_returns_None:
  "alternating_projection_sampler 3 lin_loss lin_grad lin_params 4 ex_loader = None"
  by (simp add: alternating_projection_sampler_def)

end
